theory Spec2Isabelle
  imports Complex_Main "HOL-Library.Sublist"
begin

section \<open>The Flexit client (custom\_components/pyFlexit/flexit.py)\<close>

text \<open>
  A shallow embedding of the class \<open>Flexit\<close>. The object is a record, every method a
  function that takes the object and the world (the aiohttp sessions and the calls made
  on them) and returns its result together with the new object and world. An exception
  is the left summand of the result. A Python \<open>str\<close> is the list of its UTF-8 bytes.
\<close>

subsection \<open>Python values and exceptions\<close>

text \<open>
  The values a decoded JSON body is made of, and the values the object stores. The
  carrier \<open>'f\<close> of Python's \<open>float\<close> is left open: no arithmetic is done on floats.
  A \<open>dict\<close> with \<open>str\<close> keys inside a value is the list of its items, read with \<open>map_of\<close>.
\<close>

datatype 'f pyval =
    PNone
  | PBool bool
  | PInt int
  | PFloat 'f
  | PStr string
  | PList "'f pyval list"
  | PDict "(string \<times> 'f pyval) list"

text \<open>
  The exceptions: \<open>TimeoutError\<close> is \<open>asyncio.TimeoutError\<close> or a subclass of it;
  \<open>ClientError n\<close> is \<open>aiohttp.ClientError\<close> or its subclass \<open>n\<close>, other than
  \<open>ClientResponseError\<close> and other than a subclass of \<open>asyncio.TimeoutError\<close>;
  \<open>gaierror\<close> is \<open>socket.gaierror\<close>; \<open>OtherException n\<close> is an exception of any other
  class \<open>n\<close> raised by a library call (\<open>json.JSONDecodeError\<close>, \<open>RuntimeError\<close>, ...).
  \<open>FlexitConnectionError msg cause\<close> and \<open>FlexitError msg content_type text\<close> are the two
  exceptions of the package itself.
\<close>

datatype exn =
    TimeoutError
  | ClientError string
  | ClientResponseError nat
  | gaierror
  | KeyError string
  | TypeError string
  | ValueError string
  | AttributeError string
  | OtherException string
  | FlexitConnectionError string exn
  | FlexitError string string string

text \<open>\<open>obj[key]\<close> with a \<open>str\<close> key, as Python evaluates it on each kind of value.\<close>

fun subscript :: "'f pyval \<Rightarrow> string \<Rightarrow> exn + 'f pyval" where
  "subscript (PDict kvs) k =
     (case map_of kvs k of None \<Rightarrow> Inl (KeyError k) | Some v \<Rightarrow> Inr v)"
| "subscript (PList xs) k = Inl (TypeError ''list indices must be integers or slices, not str'')"
| "subscript (PStr s) k = Inl (TypeError ''string indices must be integers'')"
| "subscript v k = Inl (TypeError ''object is not subscriptable'')"

subsection \<open>urllib.parse.quote\<close>

text \<open>
  \<open>quote(s)\<close> with the default \<open>safe='/'\<close>: every byte of the UTF-8 encoding that is not
  a letter, a digit, one of \<open>_.-~\<close> or \<open>/\<close> becomes \<open>%XX\<close> with upper-case hex digits.
\<close>

definition always_safe :: "char \<Rightarrow> bool" where
  "always_safe ch =
     (let n = of_char ch :: nat in
        (65 \<le> n \<and> n \<le> 90) \<or> (97 \<le> n \<and> n \<le> 122) \<or> (48 \<le> n \<and> n \<le> 57)
        \<or> ch \<in> set ''_.-~'')"

definition hexdigit :: "nat \<Rightarrow> char" where
  "hexdigit d = ''0123456789ABCDEF'' ! d"

definition quote_byte :: "char \<Rightarrow> string" where
  "quote_byte ch =
     (if always_safe ch \<or> ch = CHR ''/'' then [ch]
      else [CHR ''%'', hexdigit (of_char ch div 16), hexdigit (of_char ch mod 16)])"

definition quote :: "string \<Rightarrow> string" where
  "quote s = concat (map quote_byte s)"

subsection \<open>The constants of const.py\<close>

text \<open>
  The module \<open>const.py\<close> is not part of the sources at hand; its constants are opaque
  strings, so every function that reads one takes the whole table as its first
  argument.
\<close>

record const =
  VENTILATION_MODE_PATH :: string
  VENTILATION_MODE_PUT_PATH :: string
  OUTSIDE_AIR_TEMPERATURE_PATH :: string
  SUPPLY_AIR_TEMPERATURE_PATH :: string
  EXTRACT_AIR_TEMPERATURE_PATH :: string
  EXHAUST_AIR_TEMPERATURE_PATH :: string
  HOME_AIR_TEMPERATURE_PATH :: string
  AWAY_AIR_TEMPERATURE_PATH :: string
  FILTER_STATE_PATH :: string
  FILTER_TIME_FOR_EXCHANGE_PATH :: string
  ROOM_TEMPERATURE_PATH :: string
  ELECTRIC_HEATER_PATH :: string
  SCHEME :: string
  HOST :: string
  TOKEN_PATH :: string
  DATAPOINTS_PATH :: string
  APPLICATION_SOFTWARE_VERSION_PATH :: string
  DEVICE_DESCRIPTION_PATH :: string
  MODEL_NAME_PATH :: string
  MODEL_INFORMATION_PATH :: string
  SERIAL_NUMBER_PATH :: string
  FIRMWARE_REVISION_PATH :: string
  OFFLINE_ONLINE_PATH :: string
  SYSTEM_STATUS_PATH :: string
  LAST_RESTART_REASON_PATH :: string

subsection \<open>The world: sessions and the calls made on them\<close>

text \<open>
  An \<open>aiohttp.ClientSession\<close> is an object shared between the client and its caller, so
  the world holds a store of sessions by address, each open or closed. \<open>requests\<close> is
  the list of the calls of \<open>session.request\<close>, oldest first.
\<close>

datatype session_state = Open | Closed

record request =
  req_session :: nat
  req_method :: string
  req_scheme :: string
  req_host :: string
  req_uri :: string
  req_data :: "string option"
  req_headers :: "(string \<times> string) list"

record world =
  sessions :: "nat \<rightharpoonup> session_state"
  next_session :: nat
  requests :: "request list"

text \<open>
  What a call of \<open>session.request\<close> gives back: the status line, the value of the
  \<open>Content-Type\<close> header when there is one, the body as \<open>response.text()\<close> returns it, and
  what \<open>response.json()\<close> does on it (the decoded value, or the exception it raises).
\<close>

record 'f response =
  resp_status :: nat
  resp_content_type :: "string option"
  resp_text :: string
  resp_json :: "exn + 'f pyval"

text \<open>
  The answer of the environment to one call of \<open>session.request\<close> inside the timeout
  block: the response, or the exception raised there, whatever its class (that of a
  session that is closed included). \<open>Inl TimeoutError\<close> is the expiry of
  \<open>async_timeout.timeout(self.request_timeout)\<close>.
\<close>

type_synonym 'f net = "exn + 'f response"

text \<open>\<open>aiohttp.ClientSession()\<close>: a new open session at a fresh address.\<close>

definition ClientSession :: "world \<Rightarrow> nat \<times> world" where
  "ClientSession w =
     (next_session w,
      w\<lparr>sessions := (sessions w)(next_session w \<mapsto> Open),
        next_session := Suc (next_session w)\<rparr>)"

text \<open>\<open>session.close()\<close>.\<close>

definition session_close :: "nat \<Rightarrow> world \<Rightarrow> world" where
  "session_close a w = w\<lparr>sessions := (sessions w)(a \<mapsto> Closed)\<rparr>"

text \<open>\<open>session.request(method=..., url=..., data=..., headers=...)\<close>.\<close>

definition session_request :: "'f net \<Rightarrow> request \<Rightarrow> world \<Rightarrow> 'f net \<times> world" where
  "session_request net rq w = (net, w\<lparr>requests := requests w @ [rq]\<rparr>)"

text \<open>
  \<open>response.raise_for_status()\<close> of aiohttp: \<open>ClientResponseError\<close> when the status is
  400 or above, nothing otherwise.
\<close>

definition raise_for_status :: "'f response \<Rightarrow> exn + unit" where
  "raise_for_status r =
     (if 400 \<le> resp_status r then Inl (ClientResponseError (resp_status r)) else Inr ())"

subsection \<open>The object\<close>

text \<open>
  The fields of \<open>Flexit.__init__\<close>, without the event loop. A date is its day number
  (\<open>date.toordinal()\<close>), so \<open>d + timedelta(days = 1)\<close> is \<open>d + 1\<close>.
\<close>

record 'f flexit =
  session :: "nat option"
  close_session :: bool
  request_timeout :: nat
  username :: string
  password :: string
  api_key :: string
  token :: "'f pyval"
  token_refreshdate :: int
  data :: "string \<rightharpoonup> 'f pyval"
  device_info :: "string \<rightharpoonup> 'f pyval"

text \<open>\<open>Flexit(username, password, api_key, loop, session)\<close>, constructed on the date \<open>today\<close>.\<close>

definition Flexit :: "string \<Rightarrow> string \<Rightarrow> string \<Rightarrow> nat option \<Rightarrow> int \<Rightarrow> 'f flexit" where
  "Flexit u p k s today =
     \<lparr>session = s, close_session = False, request_timeout = 8,
      username = u, password = p, api_key = k,
      token = PStr [], token_refreshdate = today,
      data = Map.empty, device_info = Map.empty\<rparr>"

definition get_token_body :: "'f flexit \<Rightarrow> string" where
  "get_token_body f = ''grant_type=password&username='' @ username f @ ''&password='' @ password f"

definition get_token_headers :: "'f flexit \<Rightarrow> (string \<times> string) list" where
  "get_token_headers f =
     [(''Accept'', ''application/json''),
      (''Accept-Encoding'', ''gzip, deflate, br''),
      (''Accept-Language'', ''en-us''),
      (''Content-Type'', ''application/json; charset=utf-8''),
      (''User-Agent'', ''Flexit%20GO/2.0.6 CFNetwork/1128.0.1 Darwin/19.6.0''),
      (''Ocp-Apim-Subscription-Key'', api_key f)]"

text \<open>\<open>"Bearer " + self.token\<close> raises \<open>TypeError\<close> unless the token is a \<open>str\<close>.\<close>

definition get_headers :: "'f flexit \<Rightarrow> exn + (string \<times> string) list" where
  "get_headers f =
     (case token f of
        PStr t \<Rightarrow> Inr (get_token_headers f @ [(''Authorization'', ''Bearer '' @ t)])
      | _ \<Rightarrow> Inl (TypeError ''can only concatenate str to str''))"

subsection \<open>The request dispatcher\<close>

text \<open>
  The three request methods. Python reads \<open>self._session.request\<close> first, then evaluates
  the arguments (where \<open>get_headers\<close> may raise), then makes the call.
\<close>

definition get_request ::
  "const \<Rightarrow> 'f net \<Rightarrow> string \<Rightarrow> 'f flexit \<Rightarrow> world \<Rightarrow> 'f net \<times> world" where
  "get_request c net uri f w =
     (case session f of
        None \<Rightarrow> (Inl (AttributeError ''request''), w)
      | Some a \<Rightarrow>
          (case get_headers f of
             Inl e \<Rightarrow> (Inl e, w)
           | Inr h \<Rightarrow>
               session_request net
                 \<lparr>req_session = a, req_method = ''GET'', req_scheme = SCHEME c,
                  req_host = HOST c, req_uri = uri, req_data = None, req_headers = h\<rparr> w))"

definition put_request ::
  "const \<Rightarrow> 'f net \<Rightarrow> string \<Rightarrow> string option \<Rightarrow> 'f flexit \<Rightarrow> world \<Rightarrow> 'f net \<times> world" where
  "put_request c net uri body f w =
     (case session f of
        None \<Rightarrow> (Inl (AttributeError ''request''), w)
      | Some a \<Rightarrow>
          (case get_headers f of
             Inl e \<Rightarrow> (Inl e, w)
           | Inr h \<Rightarrow>
               session_request net
                 \<lparr>req_session = a, req_method = ''PUT'', req_scheme = SCHEME c,
                  req_host = HOST c, req_uri = uri, req_data = body, req_headers = h\<rparr> w))"

definition post_request ::
  "const \<Rightarrow> 'f net \<Rightarrow> string \<Rightarrow> string option \<Rightarrow> 'f flexit \<Rightarrow> world \<Rightarrow> 'f net \<times> world" where
  "post_request c net uri body f w =
     (case session f of
        None \<Rightarrow> (Inl (AttributeError ''request''), w)
      | Some a \<Rightarrow>
          session_request net
            \<lparr>req_session = a, req_method = ''POST'', req_scheme = SCHEME c,
             req_host = HOST c, req_uri = uri, req_data = body,
             req_headers = get_token_headers f\<rparr> w)"

text \<open>
  The two \<open>except\<close> clauses of \<open>_generic_request\<close>, in their order; an exception of any
  other class passes through.
\<close>

fun except :: "exn \<Rightarrow> exn" where
  "except TimeoutError =
     FlexitConnectionError ''Timeout occurred while connecting to Flexit device'' TimeoutError"
| "except (ClientError n) =
     FlexitConnectionError ''Error occurred while communicating with Flexit device'' (ClientError n)"
| "except (ClientResponseError n) =
     FlexitConnectionError ''Error occurred while communicating with Flexit device''
       (ClientResponseError n)"
| "except gaierror =
     FlexitConnectionError ''Error occurred while communicating with Flexit device'' gaierror"
| "except e = e"

text \<open>\<open>response.headers.get("Content-Type", "")\<close>.\<close>

definition content_type_of :: "'f response \<Rightarrow> string" where
  "content_type_of r = (case resp_content_type r of None \<Rightarrow> [] | Some v \<Rightarrow> v)"

definition generic_request ::
  "const \<Rightarrow> 'f net \<Rightarrow> string \<Rightarrow> string \<Rightarrow> string option \<Rightarrow> 'f flexit \<Rightarrow> world
     \<Rightarrow> (exn + 'f pyval) \<times> 'f flexit \<times> world" where
  "generic_request c net method url body f w =
     (let (f1, w1) =
            (if session f = None
             then (let (a, w') = ClientSession w
                   in (f\<lparr>session := Some a, close_session := True\<rparr>, w'))
             else (f, w));
          (r, w2) =
            (if method = ''POST'' then post_request c net url body f1 w1
             else if method = ''PUT'' then put_request c net url body f1 w1
             else get_request c net url f1 w1);
          checked =
            (case r of
               Inl e \<Rightarrow> Inl e
             | Inr response \<Rightarrow>
                 (case raise_for_status response of
                    Inl e \<Rightarrow> Inl e
                  | Inr _ \<Rightarrow> Inr response))
      in case checked of
           Inl e \<Rightarrow> (Inl (except e), f1, w2)
         | Inr response \<Rightarrow>
             (let content_type = content_type_of response
              in if \<not> sublist ''application/json'' content_type
                 then (Inl (FlexitError ''Unexpected response from the Flexit device''
                              content_type (resp_text response)), f1, w2)
                 else (resp_json response, f1, w2)))"

subsection \<open>The credential\<close>

definition token_request ::
  "const \<Rightarrow> 'f net \<Rightarrow> 'f flexit \<Rightarrow> world \<Rightarrow> (exn + 'f pyval) \<times> 'f flexit \<times> world" where
  "token_request c net f w =
     generic_request c net ''POST'' (TOKEN_PATH c) (Some (get_token_body f)) f w"

text \<open>
  \<open>set_token\<close> reads \<open>date.today()\<close> twice: \<open>today\<close> is the date at the comparison,
  \<open>today'\<close> the date when the response has been decoded.
\<close>

definition set_token ::
  "const \<Rightarrow> int \<Rightarrow> int \<Rightarrow> 'f net \<Rightarrow> 'f flexit \<Rightarrow> world \<Rightarrow> (exn + unit) \<times> 'f flexit \<times> world" where
  "set_token c today today' net f w =
     (if token_refreshdate f = today
      then (case token_request c net f w of
              (Inl e, f1, w1) \<Rightarrow> (Inl e, f1, w1)
            | (Inr response, f1, w1) \<Rightarrow>
                (case subscript response ''access_token'' of
                   Inl e \<Rightarrow> (Inl e, f1, w1)
                 | Inr t \<Rightarrow>
                     (Inr (), f1\<lparr>token := t, token_refreshdate := today' + 1\<rparr>, w1)))
      else (Inr (), f, w))"

subsection \<open>The read pipeline\<close>

definition put_body :: "string \<Rightarrow> string" where
  \<open>put_body v = ''{"Value": "'' @ v @ ''"}''\<close>

definition get_escaped_datapoints_url :: "const \<Rightarrow> string \<Rightarrow> string" where
  "get_escaped_datapoints_url c ident = DATAPOINTS_PATH c @ quote ident"

text \<open>
  One line of the f-string of \<open>update_data\<close>: the line break and the eight spaces that
  precede an entry, and the entry itself.
\<close>

definition indent :: string where
  "indent = CHR 0x0A # ''        ''"

definition datapoint :: "string \<Rightarrow> string" where
  \<open>datapoint p = ''{"DataPoints":"'' @ p @ ''"}''\<close>

definition filterPath :: string where
  "filterPath = ''/DataPoints/Values?filterId=''"

text \<open>
  \<open>FlexitInfo.format_dict\<close> and \<open>DeviceInfo.format_dict\<close> live in \<open>models.py\<close>, which is
  not part of the sources at hand: the formatter is an argument of the two reads. It
  returns the new \<open>dict\<close> or raises.
\<close>

type_synonym 'f formatter = "'f pyval \<Rightarrow> exn + (string \<rightharpoonup> 'f pyval)"

definition update_data ::
  "const \<Rightarrow> 'f formatter \<Rightarrow> 'f net \<Rightarrow> 'f flexit \<Rightarrow> world \<Rightarrow> (exn + unit) \<times> 'f flexit \<times> world" where
  "update_data c format_dict net f w =
     (let pathVariables =
            ''['' @ indent @ datapoint (VENTILATION_MODE_PATH c) @ '',''
            @ indent @ datapoint (OUTSIDE_AIR_TEMPERATURE_PATH c) @ '',''
            @ indent @ datapoint (SUPPLY_AIR_TEMPERATURE_PATH c) @ '',''
            @ indent @ datapoint (EXTRACT_AIR_TEMPERATURE_PATH c) @ '',''
            @ indent @ datapoint (EXHAUST_AIR_TEMPERATURE_PATH c) @ '',''
            @ indent @ datapoint (HOME_AIR_TEMPERATURE_PATH c) @ '',''
            @ indent @ datapoint (AWAY_AIR_TEMPERATURE_PATH c) @ '',''
            @ indent @ datapoint (FILTER_STATE_PATH c) @ '',''
            @ indent @ datapoint (FILTER_TIME_FOR_EXCHANGE_PATH c) @ '',''
            @ indent @ datapoint (ROOM_TEMPERATURE_PATH c) @ '',''
            @ indent @ datapoint (ELECTRIC_HEATER_PATH c) @ '']''
      in case generic_request c net ''GET'' (filterPath @ quote pathVariables) None f w of
           (Inl e, f1, w1) \<Rightarrow> (Inl e, f1, w1)
         | (Inr response, f1, w1) \<Rightarrow>
             (case format_dict response of
                Inl e \<Rightarrow> (Inl e, f1, w1)
              | Inr d \<Rightarrow> (Inr (), f1\<lparr>data := d\<rparr>, w1)))"

definition update_device_info ::
  "const \<Rightarrow> 'f formatter \<Rightarrow> 'f net \<Rightarrow> 'f flexit \<Rightarrow> world \<Rightarrow> (exn + unit) \<times> 'f flexit \<times> world" where
  "update_device_info c format_dict net f w =
     (let pathVariables =
            ''['' @ indent @ datapoint (APPLICATION_SOFTWARE_VERSION_PATH c) @ '',''
            @ indent @ datapoint (DEVICE_DESCRIPTION_PATH c) @ '',''
            @ indent @ datapoint (MODEL_NAME_PATH c) @ '',''
            @ indent @ datapoint (MODEL_INFORMATION_PATH c) @ '',''
            @ indent @ datapoint (SERIAL_NUMBER_PATH c) @ '',''
            @ indent @ datapoint (FIRMWARE_REVISION_PATH c) @ '',''
            @ indent @ datapoint (OFFLINE_ONLINE_PATH c) @ '',''
            @ indent @ datapoint (SYSTEM_STATUS_PATH c) @ '',''
            @ indent @ datapoint (LAST_RESTART_REASON_PATH c) @ '']''
      in case generic_request c net ''GET'' (filterPath @ quote pathVariables) None f w of
           (Inl e, f1, w1) \<Rightarrow> (Inl e, f1, w1)
         | (Inr response, f1, w1) \<Rightarrow>
             (case format_dict response of
                Inl e \<Rightarrow> (Inl e, f1, w1)
              | Inr d \<Rightarrow> (Inr (), f1\<lparr>device_info := d\<rparr>, w1)))"

subsection \<open>The write pipeline\<close>

text \<open>
  \<open>response["stateTexts"][path]\<close>: two subscriptions, each of which may raise.
\<close>

definition stateTexts :: "'f pyval \<Rightarrow> string \<Rightarrow> exn + 'f pyval" where
  "stateTexts response path =
     (case subscript response ''stateTexts'' of
        Inl e \<Rightarrow> Inl e
      | Inr st \<Rightarrow> subscript st path)"

text \<open>
  The temperature is the \<open>str\<close> that \<open>put_body\<close> concatenates. Python's \<open>float(temp)\<close>
  is the argument \<open>float\<close>: the float a text denotes, or the \<open>ValueError\<close> it raises.
\<close>

definition set_home_temp ::
  "const \<Rightarrow> (string \<Rightarrow> exn + 'f) \<Rightarrow> 'f net \<Rightarrow> string \<Rightarrow> 'f flexit \<Rightarrow> world
     \<Rightarrow> (exn + unit) \<times> 'f flexit \<times> world" where
  "set_home_temp c float net temp f w =
     (case generic_request c net ''PUT''
             (get_escaped_datapoints_url c (HOME_AIR_TEMPERATURE_PATH c))
             (Some (put_body temp)) f w of
        (Inl e, f1, w1) \<Rightarrow> (Inl e, f1, w1)
      | (Inr response, f1, w1) \<Rightarrow>
          (case stateTexts response (HOME_AIR_TEMPERATURE_PATH c) of
             Inl e \<Rightarrow> (Inl e, f1, w1)
           | Inr v \<Rightarrow>
               if v = PStr ''Success''
               then (case float temp of
                       Inl e \<Rightarrow> (Inl e, f1, w1)
                     | Inr x \<Rightarrow>
                         (Inr (),
                          f1\<lparr>data := (data f1)(''home_air_temperature'' \<mapsto> PFloat x)\<rparr>, w1))
               else (Inr (), f1, w1)))"

definition set_away_temp ::
  "const \<Rightarrow> (string \<Rightarrow> exn + 'f) \<Rightarrow> 'f net \<Rightarrow> string \<Rightarrow> 'f flexit \<Rightarrow> world
     \<Rightarrow> (exn + unit) \<times> 'f flexit \<times> world" where
  "set_away_temp c float net temp f w =
     (case generic_request c net ''PUT''
             (get_escaped_datapoints_url c (AWAY_AIR_TEMPERATURE_PATH c))
             (Some (put_body temp)) f w of
        (Inl e, f1, w1) \<Rightarrow> (Inl e, f1, w1)
      | (Inr response, f1, w1) \<Rightarrow>
          (case stateTexts response (AWAY_AIR_TEMPERATURE_PATH c) of
             Inl e \<Rightarrow> (Inl e, f1, w1)
           | Inr v \<Rightarrow>
               if v = PStr ''Success''
               then (case float temp of
                       Inl e \<Rightarrow> (Inl e, f1, w1)
                     | Inr x \<Rightarrow>
                         (Inr (),
                          f1\<lparr>data := (data f1)(''away_air_temperature'' \<mapsto> PFloat x)\<rparr>, w1))
               else (Inr (), f1, w1)))"

text \<open>\<open>switcher.get(key, -1)\<close> on a \<open>dict\<close> literal, and \<open>str\<close> of an \<open>int\<close>.\<close>

definition switcher_get :: "(string \<times> int) list \<Rightarrow> string \<Rightarrow> int" where
  "switcher_get switcher k = (case map_of switcher k of None \<Rightarrow> - 1 | Some i \<Rightarrow> i)"

function str_nat :: "nat \<Rightarrow> string" where
  "str_nat n = (if n < 10 then [hexdigit n] else str_nat (n div 10) @ [hexdigit (n mod 10)])"
  by pat_completeness auto
termination
  by (relation "measure id") auto

declare str_nat.simps [simp del]

definition str :: "int \<Rightarrow> string" where
  "str i = (if i < 0 then CHR ''-'' # str_nat (nat (- i)) else str_nat (nat i))"

definition set_mode ::
  "const \<Rightarrow> 'f net \<Rightarrow> string \<Rightarrow> 'f flexit \<Rightarrow> world \<Rightarrow> (exn + unit) \<times> 'f flexit \<times> world" where
  "set_mode c net mode f w =
     (let switcher = [(''Home'', 0), (''Away'', 2), (''High'', 4)];
          mode_int = switcher_get switcher mode
      in if mode_int = - 1 then (Inr (), f, w)
         else
           (case generic_request c net ''PUT''
                   (get_escaped_datapoints_url c (VENTILATION_MODE_PUT_PATH c))
                   (Some (put_body (str mode_int))) f w of
              (Inl e, f1, w1) \<Rightarrow> (Inl e, f1, w1)
            | (Inr response, f1, w1) \<Rightarrow>
                (case stateTexts response (VENTILATION_MODE_PUT_PATH c) of
                   Inl e \<Rightarrow> (Inl e, f1, w1)
                 | Inr v \<Rightarrow>
                     if v = PStr ''Success''
                     then (Inr (),
                           f1\<lparr>data := (data f1)(''ventilation_mode'' \<mapsto> PStr mode)\<rparr>, w1)
                     else (Inr (), f1, w1))))"

definition set_heater_state ::
  "const \<Rightarrow> 'f net \<Rightarrow> string \<Rightarrow> 'f flexit \<Rightarrow> world \<Rightarrow> (exn + unit) \<times> 'f flexit \<times> world" where
  "set_heater_state c net state f w =
     (let switcher = [(''on'', 1), (''off'', 0)];
          state_int = switcher_get switcher state
      in if state_int = - 1 then (Inr (), f, w)
         else
           (case generic_request c net ''PUT''
                   (get_escaped_datapoints_url c (ELECTRIC_HEATER_PATH c))
                   (Some (put_body (str state_int))) f w of
              (Inl e, f1, w1) \<Rightarrow> (Inl e, f1, w1)
            | (Inr response, f1, w1) \<Rightarrow>
                (case stateTexts response (ELECTRIC_HEATER_PATH c) of
                   Inl e \<Rightarrow> (Inl e, f1, w1)
                 | Inr v \<Rightarrow>
                     if v = PStr ''Success''
                     then (Inr (),
                           f1\<lparr>data := (data f1)(''electric_heater'' \<mapsto> PStr state)\<rparr>, w1)
                     else (Inr (), f1, w1))))"

subsection \<open>The session's end\<close>

definition close :: "'f flexit \<Rightarrow> world \<Rightarrow> (exn + unit) \<times> 'f flexit \<times> world" where
  "close f w =
     (case session f of
        Some a \<Rightarrow> if close_session f then (Inr (), f, session_close a w) else (Inr (), f, w)
      | None \<Rightarrow> (Inr (), f, w))"

definition aexit :: "'f flexit \<Rightarrow> world \<Rightarrow> (exn + unit) \<times> 'f flexit \<times> world" where
  "aexit f w = close f w"

subsection \<open>Sequences of calls\<close>

text \<open>
  What a caller does with the object: one call of a public method, with the answer of
  the environment to the request it may make; and a sequence of such calls, where an
  exception raised by one call does not stop the caller from making the next.
\<close>

datatype 'f method_call =
    Set_token int int "'f net"
  | Update_data "'f net"
  | Update_device_info "'f net"
  | Set_home_temp "'f net" string
  | Set_away_temp "'f net" string
  | Set_mode "'f net" string
  | Set_heater_state "'f net" string
  | Close

fun invoke ::
  "const \<Rightarrow> 'f formatter \<Rightarrow> 'f formatter \<Rightarrow> (string \<Rightarrow> exn + 'f) \<Rightarrow> 'f method_call
     \<Rightarrow> 'f flexit \<Rightarrow> world \<Rightarrow> (exn + unit) \<times> 'f flexit \<times> world" where
  "invoke c fi di fl (Set_token today today' net) f w = set_token c today today' net f w"
| "invoke c fi di fl (Update_data net) f w = update_data c fi net f w"
| "invoke c fi di fl (Update_device_info net) f w = update_device_info c di net f w"
| "invoke c fi di fl (Set_home_temp net temp) f w = set_home_temp c fl net temp f w"
| "invoke c fi di fl (Set_away_temp net temp) f w = set_away_temp c fl net temp f w"
| "invoke c fi di fl (Set_mode net mode) f w = set_mode c net mode f w"
| "invoke c fi di fl (Set_heater_state net state) f w = set_heater_state c net state f w"
| "invoke c fi di fl Close f w = close f w"

fun invoke_all ::
  "const \<Rightarrow> 'f formatter \<Rightarrow> 'f formatter \<Rightarrow> (string \<Rightarrow> exn + 'f) \<Rightarrow> 'f method_call list
     \<Rightarrow> 'f flexit \<Rightarrow> world \<Rightarrow> 'f flexit \<times> world" where
  "invoke_all c fi di fl [] f w = (f, w)"
| "invoke_all c fi di fl (x # xs) f w =
     (case invoke c fi di fl x f w of (_, f1, w1) \<Rightarrow> invoke_all c fi di fl xs f1 w1)"

subsection \<open>Notions used in the statements\<close>

text \<open>
  \<open>sends method f\<close>: the request is handed to the session, which needs the headers; a
  POST takes the token headers, a GET or PUT needs a token that is a \<open>str\<close>.
\<close>

definition sends :: "string \<Rightarrow> 'f flexit \<Rightarrow> bool" where
  "sends method f = (method = ''POST'' \<or> (case token f of PStr t \<Rightarrow> True | _ \<Rightarrow> False))"

text \<open>
  \<open>decoded net v\<close>: the environment answers with a response whose status passes
  \<open>raise_for_status\<close>, whose content type names JSON and whose body decodes to \<open>v\<close>.
\<close>

definition decoded :: "'f net \<Rightarrow> 'f pyval \<Rightarrow> bool" where
  "decoded net v =
     (case net of
        Inl e \<Rightarrow> False
      | Inr r \<Rightarrow> resp_status r < 400 \<and> sublist ''application/json'' (content_type_of r)
                 \<and> resp_json r = Inr v)"

text \<open>The two classes of error of the package.\<close>

fun is_connection_error :: "exn \<Rightarrow> bool" where
  "is_connection_error (FlexitConnectionError m e) = True"
| "is_connection_error e = False"

fun is_protocol_error :: "exn \<Rightarrow> bool" where
  "is_protocol_error (FlexitError m ct t) = True"
| "is_protocol_error e = False"


text \<open>
  \<open>one_request method w w'\<close>: from \<open>w\<close> to \<open>w'\<close> exactly one call of \<open>session.request\<close> was
  made, with this method. \<open>at_most_one_request\<close>: none, or one with this method.
\<close>

definition one_request :: "string \<Rightarrow> world \<Rightarrow> world \<Rightarrow> bool" where
  "one_request method w w' =
     (requests w' \<noteq> [] \<and> butlast (requests w') = requests w
      \<and> req_method (last (requests w')) = method)"




text \<open>
  Devices of the proofs: the first lines of \<open>_generic_request\<close>, the request it sends and
  what it returns in terms of the answer.
\<close>

definition ensure_session :: "'f flexit \<Rightarrow> world \<Rightarrow> 'f flexit \<times> world" where
  "ensure_session f w =
     (if session f = None
      then (f\<lparr>session := Some (next_session w), close_session := True\<rparr>, snd (ClientSession w))
      else (f, w))"

definition bearer :: "'f flexit \<Rightarrow> string" where
  "bearer f = (case token f of PStr t \<Rightarrow> t | _ \<Rightarrow> [])"

definition request_of ::
  "const \<Rightarrow> string \<Rightarrow> string \<Rightarrow> string option \<Rightarrow> 'f flexit \<Rightarrow> request" where
  "request_of c m u b f =
     \<lparr>req_session = (case session f of Some a \<Rightarrow> a | None \<Rightarrow> 0),
      req_method = (if m = ''POST'' then ''POST'' else if m = ''PUT'' then ''PUT'' else ''GET''),
      req_scheme = SCHEME c, req_host = HOST c, req_uri = u,
      req_data = (if m = ''POST'' \<or> m = ''PUT'' then b else None),
      req_headers =
        (if m = ''POST'' then get_token_headers f
         else get_token_headers f @ [(''Authorization'', ''Bearer '' @ bearer f)])\<rparr>"

definition respond :: "'f net \<Rightarrow> exn + 'f pyval" where
  "respond net =
     (case net of
        Inl e \<Rightarrow> Inl (except e)
      | Inr r \<Rightarrow>
          if 400 \<le> resp_status r then Inl (except (ClientResponseError (resp_status r)))
          else if \<not> sublist ''application/json'' (content_type_of r)
          then Inl (FlexitError ''Unexpected response from the Flexit device''
                      (content_type_of r) (resp_text r))
          else resp_json r)"

subsection \<open>Values for the examples\<close>

text \<open>
  A table of constants, a client, two worlds and some responses, for the examples that
  follow. The strings of the table are placeholders, not those of \<open>const.py\<close>; the float
  carrier of the examples is \<open>real\<close>, and \<open>example_float\<close> knows one literal.
\<close>

definition example_const :: const where
  "example_const =
     \<lparr>VENTILATION_MODE_PATH = ''vm'', VENTILATION_MODE_PUT_PATH = ''vmp'',
      OUTSIDE_AIR_TEMPERATURE_PATH = ''oat'', SUPPLY_AIR_TEMPERATURE_PATH = ''sat'',
      EXTRACT_AIR_TEMPERATURE_PATH = ''eat'', EXHAUST_AIR_TEMPERATURE_PATH = ''xat'',
      HOME_AIR_TEMPERATURE_PATH = ''hat'', AWAY_AIR_TEMPERATURE_PATH = ''aat'',
      FILTER_STATE_PATH = ''fs'', FILTER_TIME_FOR_EXCHANGE_PATH = ''fte'',
      ROOM_TEMPERATURE_PATH = ''rt'', ELECTRIC_HEATER_PATH = ''eh'',
      SCHEME = ''https'', HOST = ''api.example'', TOKEN_PATH = ''/Token'',
      DATAPOINTS_PATH = ''/DataPoints/'',
      APPLICATION_SOFTWARE_VERSION_PATH = ''asv'', DEVICE_DESCRIPTION_PATH = ''dd'',
      MODEL_NAME_PATH = ''mn'', MODEL_INFORMATION_PATH = ''mi'', SERIAL_NUMBER_PATH = ''sn'',
      FIRMWARE_REVISION_PATH = ''fr'', OFFLINE_ONLINE_PATH = ''oo'',
      SYSTEM_STATUS_PATH = ''ss'', LAST_RESTART_REASON_PATH = ''lrr''\<rparr>"

definition example_float :: "string \<Rightarrow> exn + real" where
  "example_float s =
     (if s = ''21.5'' then Inr (43 / 2) else Inl (ValueError ''could not convert string to float''))"

definition example_format :: "real formatter" where
  "example_format v =
     (case v of
        PDict kvs \<Rightarrow> Inr (map_of kvs)
      | _ \<Rightarrow> Inl (TypeError ''object is not subscriptable''))"

text \<open>A client constructed on day 100 without a session, and one with the session 0.\<close>

definition example_client :: "real flexit" where
  "example_client = Flexit ''user'' ''secret'' ''key'' None 100"

definition example_client_with_session :: "real flexit" where
  "example_client_with_session = Flexit ''user'' ''secret'' ''key'' (Some 0) 100"

definition empty_world :: world where
  "empty_world = \<lparr>sessions = Map.empty, next_session = 0, requests = []\<rparr>"

definition world_with_session :: world where
  "world_with_session = \<lparr>sessions = [0 \<mapsto> Open], next_session = 1, requests = []\<rparr>"

definition json_response :: "nat \<Rightarrow> real pyval \<Rightarrow> real response" where
  "json_response st v =
     \<lparr>resp_status = st, resp_content_type = Some ''application/json; charset=utf-8'',
      resp_text = [], resp_json = Inr v\<rparr>"

definition html_response :: "real response" where
  "html_response =
     \<lparr>resp_status = 200, resp_content_type = Some ''text/html'',
      resp_text = ''<html>Service Unavailable</html>'',
      resp_json = Inl (OtherException ''ContentTypeError'')\<rparr>"

definition undecodable_response :: "real response" where
  "undecodable_response =
     \<lparr>resp_status = 200, resp_content_type = Some ''application/json'',
      resp_text = ''{'', resp_json = Inl (OtherException ''JSONDecodeError'')\<rparr>"


text \<open>A client whose caches hold values of an earlier read.\<close>

definition stale_client :: "real flexit" where
  "stale_client =
     example_client
       \<lparr>data := [''room_temperature'' \<mapsto> PInt 20, ''electric_heater'' \<mapsto> PStr ''on''],
        device_info := [''model_name'' \<mapsto> PStr ''Nordic'', ''system_status'' \<mapsto> PStr ''ok'']\<rparr>"

text \<open>
  The part of the object and the world that concerns the session: the reference, the
  flag, the store and the next free address. A call other than \<open>close\<close> keeps it or
  changes it as the first lines of \<open>_generic_request\<close> do.
\<close>

definition session_view ::
  "'f flexit \<times> world \<Rightarrow> nat option \<times> bool \<times> (nat \<rightharpoonup> session_state) \<times> nat" where
  "session_view s =
     (session (fst s), close_session (fst s), sessions (snd s), next_session (snd s))"

definition session_kept_or_created ::
  "'f flexit \<Rightarrow> world \<Rightarrow> (exn + unit) \<times> 'f flexit \<times> world \<Rightarrow> bool" where
  "session_kept_or_created f w out =
     (session_view (snd out) = session_view (f, w)
      \<or> session_view (snd out) = session_view (ensure_session f w))"

text \<open>
  A client without one has no session and no flag, or a session it created, at an
  address that was free when the client was made, and the flag.
\<close>

definition own_session :: "nat \<Rightarrow> 'f flexit \<Rightarrow> world \<Rightarrow> bool" where
  "own_session n0 f w =
     (n0 \<le> next_session w
      \<and> (case session f of
           None \<Rightarrow> \<not> close_session f
         | Some n \<Rightarrow> close_session f \<and> n0 \<le> n))"

section \<open>Properties\<close>

text \<open>The definitions of the values for the examples.\<close>

lemmas example_defs = example_client_def example_client_with_session_def Flexit_def
  empty_world_def world_with_session_def json_response_def html_response_def
  undecodable_response_def content_type_of_def

subsection \<open>The dispatcher, characterised\<close>

lemma dispatch_sends:
  assumes "sends m f" and "session f = Some a"
  shows "(if m = ''POST'' then post_request c net u b f w
          else if m = ''PUT'' then put_request c net u b f w
          else get_request c net u f w)
         = (net, w\<lparr>requests := requests w @ [request_of c m u b f]\<rparr>)"
  using assms
  by (cases "token f")
     (simp_all add: sends_def post_request_def put_request_def get_request_def
        session_request_def get_headers_def request_of_def bearer_def get_token_headers_def)

lemma dispatch_not_sends:
  assumes "\<not> sends m f" and "session f = Some a"
  shows "(if m = ''POST'' then post_request c net u b f w
          else if m = ''PUT'' then put_request c net u b f w
          else get_request c net u f w)
         = (Inl (TypeError ''can only concatenate str to str''), w)"
  using assms
  by (cases "token f")
     (simp_all add: sends_def post_request_def put_request_def get_request_def
        session_request_def get_headers_def)

lemma ensure_session_Some: "\<exists>a. session (fst (ensure_session f w)) = Some a"
  by (simp add: ensure_session_def)

lemma sends_ensure_session: "sends m (fst (ensure_session f w)) = sends m f"
  by (simp add: ensure_session_def sends_def)

lemma generic_request_prep:
  "generic_request c net method url body f w =
     (let (f1, w1) = ensure_session f w;
          (r, w2) =
            (if method = ''POST'' then post_request c net url body f1 w1
             else if method = ''PUT'' then put_request c net url body f1 w1
             else get_request c net url f1 w1);
          checked =
            (case r of
               Inl e \<Rightarrow> Inl e
             | Inr response \<Rightarrow>
                 (case raise_for_status response of
                    Inl e \<Rightarrow> Inl e
                  | Inr _ \<Rightarrow> Inr response))
      in case checked of
           Inl e \<Rightarrow> (Inl (except e), f1, w2)
         | Inr response \<Rightarrow>
             (let content_type = content_type_of response
              in if \<not> sublist ''application/json'' content_type
                 then (Inl (FlexitError ''Unexpected response from the Flexit device''
                              content_type (resp_text response)), f1, w2)
                 else (resp_json response, f1, w2)))"
  unfolding generic_request_def ensure_session_def
  by (simp add: ClientSession_def split: prod.splits)

lemma generic_request_sends:
  assumes "sends m f"
  shows "generic_request c net m u b f w =
           (respond net, fst (ensure_session f w),
            (snd (ensure_session f w))
              \<lparr>requests := requests (snd (ensure_session f w))
                  @ [request_of c m u b (fst (ensure_session f w))]\<rparr>)"
proof -
  obtain f1 w1 where e: "ensure_session f w = (f1, w1)" by (cases "ensure_session f w")
  obtain a where a: "session f1 = Some a" using ensure_session_Some [of f w] e by auto
  have s: "sends m f1" using assms sends_ensure_session [of m f w] e by simp
  show ?thesis
    unfolding generic_request_prep e
    by (cases net)
       (simp_all add: dispatch_sends [OF s a] respond_def raise_for_status_def Let_def)
qed

lemma generic_request_not_sends:
  assumes "\<not> sends m f"
  shows "generic_request c net m u b f w =
           (Inl (TypeError ''can only concatenate str to str''), ensure_session f w)"
proof -
  obtain f1 w1 where e: "ensure_session f w = (f1, w1)" by (cases "ensure_session f w")
  obtain a where a: "session f1 = Some a" using ensure_session_Some [of f w] e by auto
  have s: "\<not> sends m f1" using assms sends_ensure_session [of m f w] e by simp
  show ?thesis
    unfolding generic_request_prep e
    by (simp add: dispatch_not_sends [OF s a])
qed

text \<open>What \<open>ensure_session\<close> keeps.\<close>

lemma ensure_session_fields:
  "token (fst (ensure_session f w)) = token f"
  "token_refreshdate (fst (ensure_session f w)) = token_refreshdate f"
  "data (fst (ensure_session f w)) = data f"
  "device_info (fst (ensure_session f w)) = device_info f"
  "username (fst (ensure_session f w)) = username f"
  "password (fst (ensure_session f w)) = password f"
  "requests (snd (ensure_session f w)) = requests w"
  by (simp_all add: ensure_session_def ClientSession_def)

lemma respond_decoded: "decoded net v \<Longrightarrow> respond net = Inr v"
  by (cases net) (simp_all add: decoded_def respond_def)

lemma sends_POST: "sends ''POST'' f"
  by (simp add: sends_def)

lemma request_of_method:
  "req_method (request_of c ''POST'' u b f) = ''POST''"
  "req_method (request_of c ''PUT'' u b f) = ''PUT''"
  "req_method (request_of c ''GET'' u b f) = ''GET''"
  "req_uri (request_of c m u b f) = u"
  "req_data (request_of c ''POST'' u b f) = b"
  "req_data (request_of c ''PUT'' u b f) = b"
  by (simp_all add: request_of_def)



subsection \<open>Failures to decode the body\<close>

text \<open>
  C3, as amended. When the request was sent, the status is below 400, the content type
  names JSON and \<open>response.json()\<close> raises, the exception it raises reaches the caller of
  the dispatcher as it is: the \<open>return\<close> stands after the \<open>try\<close> statement, so neither
  \<open>except\<close> clause sees it.
\<close>


theorem decode_failure_passes_through:
  assumes "sends method f"
    and "resp_status r < 400"
    and "sublist ''application/json'' (content_type_of r)"
    and "resp_json r = Inl e"
  shows "fst (generic_request c (Inr r) method url body f w) = Inl e"
  using assms by (simp add: generic_request_sends respond_def)

text \<open>C3, an instance: a body that is not JSON, announced as JSON.\<close>

theorem decode_failure_passes_through_witness:
  "sends ''GET'' example_client
   \<and> resp_status undecodable_response < 400
   \<and> sublist ''application/json'' (content_type_of undecodable_response)
   \<and> resp_json undecodable_response = Inl (OtherException ''JSONDecodeError'')
   \<and> fst (generic_request example_const (Inr undecodable_response) ''GET'' ''/x'' None
            example_client empty_world) = Inl (OtherException ''JSONDecodeError'')"
proof -
  have 1: "sends ''GET'' example_client"
    by (simp add: sends_def example_client_def Flexit_def)
  have 2: "resp_status undecodable_response < 400"
    by (simp add: undecodable_response_def)
  have 3: "sublist ''application/json'' (content_type_of undecodable_response)"
    by (simp add: undecodable_response_def content_type_of_def)
  have 4: "resp_json undecodable_response = Inl (OtherException ''JSONDecodeError'')"
    by (simp add: undecodable_response_def)
  show ?thesis
    using 1 2 3 4 decode_failure_passes_through [OF 1 2 3 4] by simp
qed

text \<open>
  C3 as stated fails there: what the caller gets is neither the connection error nor the
  protocol error of the package.
\<close>

theorem decode_failure_unclassified_counterexample:
  "fst (generic_request example_const (Inr undecodable_response) ''GET'' ''/x'' None
          example_client empty_world) = Inl (OtherException ''JSONDecodeError'')
   \<and> \<not> is_connection_error (OtherException ''JSONDecodeError'')
   \<and> \<not> is_protocol_error (OtherException ''JSONDecodeError'')"
  by (simp add: generic_request_def example_client_def Flexit_def ClientSession_def
      get_request_def get_headers_def session_request_def raise_for_status_def
      undecodable_response_def content_type_of_def empty_world_def)

subsection \<open>Failures of the transport\<close>




subsection \<open>The content type guard\<close>



subsection \<open>The credential: when it is refreshed\<close>

lemma token_request_eq:
  "token_request c net f w =
     (respond net, fst (ensure_session f w),
      (snd (ensure_session f w))
        \<lparr>requests := requests w
            @ [request_of c ''POST'' (TOKEN_PATH c) (Some (get_token_body f))
                 (fst (ensure_session f w))]\<rparr>)"
  by (simp add: token_request_def generic_request_sends [OF sends_POST] ensure_session_fields)

lemma token_request_one_request:
  "one_request ''POST'' w (snd (snd (token_request c net f w)))"
  by (simp add: token_request_eq one_request_def request_of_method)

lemma set_token_world:
  "token_refreshdate f = today \<Longrightarrow>
   snd (snd (set_token c today today' net f w)) = snd (snd (token_request c net f w))"
  by (cases "token_request c net f w") (auto simp: set_token_def split: sum.splits)

text \<open>
  C4. When the stored refresh date is the date \<open>today\<close> that \<open>set_token\<close> reads at its
  comparison, the call makes one request, the POST of the token body to the token path;
  when that request is answered with a JSON object that has an \<open>access_token\<close>, the call
  returns, the token is that value and the refresh date is the day after the date
  \<open>today'\<close> read when the answer is there (the same day as \<open>today\<close> unless midnight has
  passed in between). When the stored refresh date is after \<open>today\<close>, the call returns
  with the object and the world as they were: no request, the same token.
\<close>

theorem token_refresh_gating:
  "(token_refreshdate f = today \<longrightarrow>
      one_request ''POST'' w (snd (snd (set_token c today today' net f w)))
      \<and> req_uri (last (requests (snd (snd (set_token c today today' net f w))))) = TOKEN_PATH c
      \<and> req_data (last (requests (snd (snd (set_token c today today' net f w)))))
          = Some (get_token_body f)
      \<and> (decoded net (PDict kvs) \<and> map_of kvs ''access_token'' = Some t \<longrightarrow>
           fst (set_token c today today' net f w) = Inr ()
           \<and> token (fst (snd (set_token c today today' net f w))) = t
           \<and> token_refreshdate (fst (snd (set_token c today today' net f w))) = today' + 1))
   \<and> (today < token_refreshdate f \<longrightarrow> set_token c today today' net f w = (Inr (), f, w))"
proof -
  have a: "token_refreshdate f = today \<Longrightarrow>
           one_request ''POST'' w (snd (snd (set_token c today today' net f w)))"
    using token_request_one_request [of w c net f] by (simp add: set_token_world)
  have b: "token_refreshdate f = today \<Longrightarrow>
           requests (snd (snd (set_token c today today' net f w)))
             = requests (snd (snd (token_request c net f w)))"
    by (simp add: set_token_world)
  have c: "decoded net (PDict kvs) \<Longrightarrow> map_of kvs ''access_token'' = Some t \<Longrightarrow>
           token_refreshdate f = today \<Longrightarrow>
           set_token c today today' net f w =
             (Inr (), (fst (snd (token_request c net f w)))
                        \<lparr>token := t, token_refreshdate := today' + 1\<rparr>,
              snd (snd (token_request c net f w)))"
    by (simp add: set_token_def token_request_eq respond_decoded)
  show ?thesis
    using a b c
    by (simp add: token_request_eq request_of_method) (simp add: set_token_def)
qed

text \<open>C4, an instance: a client made on day 100, asked on day 100 and on day 99.\<close>

theorem token_refresh_gating_witness:
  "token_refreshdate example_client = 100
   \<and> decoded (Inr (json_response 200 (PDict [(''access_token'', PStr ''abc'')])))
       (PDict [(''access_token'', PStr ''abc'')])
   \<and> map_of [(''access_token'', PStr ''abc'' :: real pyval)] ''access_token'' = Some (PStr ''abc'')
   \<and> fst (set_token example_const 100 100
            (Inr (json_response 200 (PDict [(''access_token'', PStr ''abc'')])))
            example_client empty_world) = Inr ()
   \<and> token (fst (snd (set_token example_const 100 100
            (Inr (json_response 200 (PDict [(''access_token'', PStr ''abc'')])))
            example_client empty_world))) = PStr ''abc''
   \<and> token_refreshdate (fst (snd (set_token example_const 100 100
            (Inr (json_response 200 (PDict [(''access_token'', PStr ''abc'')])))
            example_client empty_world))) = 101
   \<and> (99::int) < token_refreshdate example_client
   \<and> set_token example_const 99 99 (Inl gaierror) example_client empty_world
       = (Inr (), example_client, empty_world)"
proof -
  have 1: "token_refreshdate example_client = 100"
    by (simp add: example_defs)
  have 2: "decoded (Inr (json_response 200 (PDict [(''access_token'', PStr ''abc'')])))
             (PDict [(''access_token'', PStr ''abc'')])"
    by (simp add: decoded_def example_defs)
  have 3: "map_of [(''access_token'', PStr ''abc'' :: real pyval)] ''access_token''
             = Some (PStr ''abc'')"
    by simp
  have 4: "(99::int) < token_refreshdate example_client"
    by (simp add: example_defs)
  show ?thesis
    using 1 2 3 4
      token_refresh_gating [of example_client 100 empty_world example_const 100
        "Inr (json_response 200 (PDict [(''access_token'', PStr ''abc'')]))"
        "[(''access_token'', PStr ''abc'')]" "PStr ''abc''"]
      token_refresh_gating [of example_client 99 empty_world example_const 99
        "Inl gaierror" "[]" "PNone"]
    by simp
qed



subsection \<open>Labels outside the tables\<close>

text \<open>
  C7. A label that is not a key of the table of \<open>set_mode\<close> (\<open>Home\<close>, \<open>Away\<close>, \<open>High\<close>), or of
  the table of \<open>set_heater_state\<close> (\<open>on\<close>, \<open>off\<close>), makes the call return at once: the result
  is \<open>None\<close>, not an exception, and the object and the world are those given, so no
  request was made, no session created and no cached value changed.
\<close>

theorem unknown_label_no_op:
  "(mode \<notin> {''Home'', ''Away'', ''High''} \<longrightarrow> set_mode c net mode f w = (Inr (), f, w))
   \<and> (state \<notin> {''on'', ''off''} \<longrightarrow> set_heater_state c net state f w = (Inr (), f, w))"
  by (simp add: set_mode_def set_heater_state_def switcher_get_def)

text \<open>C7, an instance: \<open>set_mode("Invalid")\<close> and \<open>set_heater_state("Maybe")\<close>.\<close>

theorem unknown_label_no_op_witness:
  "''Invalid'' \<notin> {''Home'', ''Away'', ''High''}
   \<and> set_mode example_const (Inl gaierror) ''Invalid'' example_client empty_world
       = (Inr (), example_client, empty_world)
   \<and> ''Maybe'' \<notin> {''on'', ''off''}
   \<and> set_heater_state example_const (Inl gaierror) ''Maybe'' example_client empty_world
       = (Inr (), example_client, empty_world)"
  using unknown_label_no_op [of "''Invalid''" example_const "Inl gaierror" example_client
      empty_world "''Maybe''"]
  by simp

subsection \<open>The reads\<close>

lemma respond_Inr: "respond net = Inr v \<Longrightarrow> decoded net v"
  by (cases net) (auto simp: decoded_def respond_def split: if_splits)

lemma generic_request_Inr:
  assumes "generic_request c net m u b f w = (Inr v, f1, w1)"
  shows "decoded net v \<and> f1 = fst (ensure_session f w)"
proof (cases "sends m f")
  case True
  then show ?thesis
    using assms by (simp add: generic_request_sends respond_Inr)
next
  case False
  then show ?thesis
    using assms by (simp add: generic_request_not_sends)
qed


text \<open>
  C8. A read that returns has had its request answered by a body that decodes to some
  \<open>response\<close>, the formatter has returned a \<open>dict\<close> \<open>d\<close> for it, and the cached mapping
  (\<open>data\<close> for \<open>update_data\<close>, \<open>device_info\<close> for \<open>update_device_info\<close>) is \<open>d\<close> itself: a key
  that the cache had before and that \<open>d\<close> has not is gone.
\<close>

theorem reads_replace_cache:
  "(update_data c format_dict net f w = (Inr (), f', w') \<longrightarrow>
      (\<exists>response d. decoded net response \<and> format_dict response = Inr d \<and> data f' = d
         \<and> (\<forall>k \<in> dom (data f) - dom d. k \<notin> dom (data f'))))
   \<and> (update_device_info c format_dict net f w = (Inr (), f', w') \<longrightarrow>
      (\<exists>response d. decoded net response \<and> format_dict response = Inr d \<and> device_info f' = d
         \<and> (\<forall>k \<in> dom (device_info f) - dom d. k \<notin> dom (device_info f'))))"
proof (intro conjI impI)
  assume a: "update_data c format_dict net f w = (Inr (), f', w')"
  then obtain u response f1 w1 where
    g: "generic_request c net ''GET'' u None f w = (Inr response, f1, w1)"
    by (auto simp: update_data_def Let_def split: prod.splits sum.splits)
  moreover have "\<And>u'. fst (generic_request c net ''GET'' u' None f w)
                     = fst (generic_request c net ''GET'' u None f w)"
    by (cases "sends ''GET'' f") (simp_all add: generic_request_sends generic_request_not_sends)
  ultimately obtain d where "format_dict response = Inr d" "data f' = d"
    using a
    by (auto simp: update_data_def Let_def split: prod.splits sum.splits)
       (metis fst_conv sum.inject(2))
  then show "\<exists>response d. decoded net response \<and> format_dict response = Inr d \<and> data f' = d
               \<and> (\<forall>k \<in> dom (data f) - dom d. k \<notin> dom (data f'))"
    using generic_request_Inr [OF g] by auto
next
  assume a: "update_device_info c format_dict net f w = (Inr (), f', w')"
  then obtain u response f1 w1 where
    g: "generic_request c net ''GET'' u None f w = (Inr response, f1, w1)"
    by (auto simp: update_device_info_def Let_def split: prod.splits sum.splits)
  moreover have "\<And>u'. fst (generic_request c net ''GET'' u' None f w)
                     = fst (generic_request c net ''GET'' u None f w)"
    by (cases "sends ''GET'' f") (simp_all add: generic_request_sends generic_request_not_sends)
  ultimately obtain d where "format_dict response = Inr d" "device_info f' = d"
    using a
    by (auto simp: update_device_info_def Let_def split: prod.splits sum.splits)
       (metis fst_conv sum.inject(2))
  then show "\<exists>response d. decoded net response \<and> format_dict response = Inr d
               \<and> device_info f' = d
               \<and> (\<forall>k \<in> dom (device_info f) - dom d. k \<notin> dom (device_info f'))"
    using generic_request_Inr [OF g] by auto
qed

subsection \<open>No operation refreshes the token\<close>



lemma update_data_shape:
  "\<exists>u. update_data c format_dict net f w =
     (case generic_request c net ''GET'' u None f w of
        (Inl e, f1, w1) \<Rightarrow> (Inl e, f1, w1)
      | (Inr response, f1, w1) \<Rightarrow>
          (case format_dict response of
             Inl e \<Rightarrow> (Inl e, f1, w1)
           | Inr d \<Rightarrow> (Inr (), f1\<lparr>data := d\<rparr>, w1)))"
  unfolding update_data_def Let_def by (rule exI) (rule refl)

lemma update_device_info_shape:
  "\<exists>u. update_device_info c format_dict net f w =
     (case generic_request c net ''GET'' u None f w of
        (Inl e, f1, w1) \<Rightarrow> (Inl e, f1, w1)
      | (Inr response, f1, w1) \<Rightarrow>
          (case format_dict response of
             Inl e \<Rightarrow> (Inl e, f1, w1)
           | Inr d \<Rightarrow> (Inr (), f1\<lparr>device_info := d\<rparr>, w1)))"
  unfolding update_device_info_def Let_def by (rule exI) (rule refl)










lemma decoded_json_response: "decoded (Inr (json_response 200 v)) v"
  by (simp add: decoded_def example_defs)

lemma update_data_decoded:
  assumes "sends ''GET'' f" and "decoded net response" and "format_dict response = Inr d"
  shows "fst (update_data c format_dict net f w) = Inr ()"
    and "fst (snd (update_data c format_dict net f w)) = (fst (ensure_session f w))\<lparr>data := d\<rparr>"
    and "map req_method (requests (snd (snd (update_data c format_dict net f w))))
           = map req_method (requests w) @ [''GET'']"
proof -
  obtain u where s: "update_data c format_dict net f w =
     (case generic_request c net ''GET'' u None f w of
        (Inl e, f1, w1) \<Rightarrow> (Inl e, f1, w1)
      | (Inr response, f1, w1) \<Rightarrow>
          (case format_dict response of
             Inl e \<Rightarrow> (Inl e, f1, w1)
           | Inr d \<Rightarrow> (Inr (), f1\<lparr>data := d\<rparr>, w1)))"
    using update_data_shape by blast
  have g: "generic_request c net ''GET'' u None f w =
             (Inr response, fst (ensure_session f w),
              (snd (ensure_session f w))
                \<lparr>requests := requests w @ [request_of c ''GET'' u None (fst (ensure_session f w))]\<rparr>)"
    by (simp add: generic_request_sends [OF assms(1)] respond_decoded [OF assms(2)]
        ensure_session_fields)
  show "fst (update_data c format_dict net f w) = Inr ()"
    and "fst (snd (update_data c format_dict net f w)) = (fst (ensure_session f w))\<lparr>data := d\<rparr>"
    and "map req_method (requests (snd (snd (update_data c format_dict net f w))))
           = map req_method (requests w) @ [''GET'']"
    unfolding s g by (simp_all add: assms(3) request_of_method)
qed



subsection \<open>Writes and their confirmation\<close>














subsection \<open>The reads, an instance\<close>

lemma update_device_info_decoded:
  assumes "sends ''GET'' f" and "decoded net response" and "format_dict response = Inr d"
  shows "fst (update_device_info c format_dict net f w) = Inr ()"
    and "fst (snd (update_device_info c format_dict net f w))
           = (fst (ensure_session f w))\<lparr>device_info := d\<rparr>"
proof -
  obtain u where s: "update_device_info c format_dict net f w =
     (case generic_request c net ''GET'' u None f w of
        (Inl e, f1, w1) \<Rightarrow> (Inl e, f1, w1)
      | (Inr response, f1, w1) \<Rightarrow>
          (case format_dict response of
             Inl e \<Rightarrow> (Inl e, f1, w1)
           | Inr d \<Rightarrow> (Inr (), f1\<lparr>device_info := d\<rparr>, w1)))"
    using update_device_info_shape by blast
  have g: "generic_request c net ''GET'' u None f w =
             (Inr response, fst (ensure_session f w),
              (snd (ensure_session f w))
                \<lparr>requests := requests w @ [request_of c ''GET'' u None (fst (ensure_session f w))]\<rparr>)"
    by (simp add: generic_request_sends [OF assms(1)] respond_decoded [OF assms(2)]
        ensure_session_fields)
  show "fst (update_device_info c format_dict net f w) = Inr ()"
    and "fst (snd (update_device_info c format_dict net f w))
           = (fst (ensure_session f w))\<lparr>device_info := d\<rparr>"
    unfolding s g by (simp_all add: assms(3))
qed

text \<open>
  C8, an instance: the cache holds a room temperature and a heater state, the new
  response has the room temperature only; and the same for the device info.
\<close>

theorem reads_replace_cache_witness:
  "update_data example_const example_format
     (Inr (json_response 200 (PDict [(''room_temperature'', PInt 21)]))) stale_client empty_world
   = (Inr (),
      fst (snd (update_data example_const example_format
                  (Inr (json_response 200 (PDict [(''room_temperature'', PInt 21)])))
                  stale_client empty_world)),
      snd (snd (update_data example_const example_format
                  (Inr (json_response 200 (PDict [(''room_temperature'', PInt 21)])))
                  stale_client empty_world)))
   \<and> data stale_client ''electric_heater'' = Some (PStr ''on'')
   \<and> data (fst (snd (update_data example_const example_format
                  (Inr (json_response 200 (PDict [(''room_temperature'', PInt 21)])))
                  stale_client empty_world))) = [''room_temperature'' \<mapsto> PInt 21]
   \<and> update_device_info example_const example_format
     (Inr (json_response 200 (PDict [(''model_name'', PStr ''Nordic'')]))) stale_client empty_world
   = (Inr (),
      fst (snd (update_device_info example_const example_format
                  (Inr (json_response 200 (PDict [(''model_name'', PStr ''Nordic'')])))
                  stale_client empty_world)),
      snd (snd (update_device_info example_const example_format
                  (Inr (json_response 200 (PDict [(''model_name'', PStr ''Nordic'')])))
                  stale_client empty_world)))
   \<and> device_info stale_client ''system_status'' = Some (PStr ''ok'')
   \<and> device_info (fst (snd (update_device_info example_const example_format
                  (Inr (json_response 200 (PDict [(''model_name'', PStr ''Nordic'')])))
                  stale_client empty_world))) = [''model_name'' \<mapsto> PStr ''Nordic'']"
proof -
  have s: "sends ''GET'' stale_client"
    by (simp add: sends_def stale_client_def example_defs)
  have d1: "decoded (Inr (json_response 200 (PDict [(''room_temperature'', PInt 21)])))
              (PDict [(''room_temperature'', PInt 21)])"
    by (rule decoded_json_response)
  have d2: "decoded (Inr (json_response 200 (PDict [(''model_name'', PStr ''Nordic'')])))
              (PDict [(''model_name'', PStr ''Nordic'')])"
    by (rule decoded_json_response)
  have f1: "example_format (PDict [(''room_temperature'', PInt 21)])
              = Inr [''room_temperature'' \<mapsto> PInt 21]"
    by (simp add: example_format_def)
  have f2: "example_format (PDict [(''model_name'', PStr ''Nordic'')])
              = Inr [''model_name'' \<mapsto> PStr ''Nordic'']"
    by (simp add: example_format_def)
  have c: "data stale_client ''electric_heater'' = Some (PStr ''on'')"
    "device_info stale_client ''system_status'' = Some (PStr ''ok'')"
    by (simp_all add: stale_client_def)
  note u = update_data_decoded [where f = stale_client and format_dict = example_format
      and c = example_const and w = empty_world, OF s d1 f1]
  note v = update_device_info_decoded [where f = stale_client and format_dict = example_format
      and c = example_const and w = empty_world, OF s d2 f2]
  have h1: "update_data example_const example_format
     (Inr (json_response 200 (PDict [(''room_temperature'', PInt 21)]))) stale_client empty_world
   = (Inr (),
      fst (snd (update_data example_const example_format
                  (Inr (json_response 200 (PDict [(''room_temperature'', PInt 21)])))
                  stale_client empty_world)),
      snd (snd (update_data example_const example_format
                  (Inr (json_response 200 (PDict [(''room_temperature'', PInt 21)])))
                  stale_client empty_world)))"
    using u(1) by (metis prod.collapse)
  have h2: "update_device_info example_const example_format
     (Inr (json_response 200 (PDict [(''model_name'', PStr ''Nordic'')]))) stale_client empty_world
   = (Inr (),
      fst (snd (update_device_info example_const example_format
                  (Inr (json_response 200 (PDict [(''model_name'', PStr ''Nordic'')])))
                  stale_client empty_world)),
      snd (snd (update_device_info example_const example_format
                  (Inr (json_response 200 (PDict [(''model_name'', PStr ''Nordic'')])))
                  stale_client empty_world)))"
    using v(1) by (metis prod.collapse)
  note t1 = reads_replace_cache [THEN conjunct1, rule_format, OF h1]
  note t2 = reads_replace_cache [THEN conjunct2, rule_format, OF h2]
  show ?thesis
    using h1 h2 c t1 t2 by (simp add: u(2) v(2))
qed

subsection \<open>The session and its owner\<close>

lemma generic_request_view:
  "session_view (snd (generic_request c net m u b f w)) = session_view (ensure_session f w)"
  by (cases "sends m f")
     (simp_all add: generic_request_sends generic_request_not_sends session_view_def)

lemma generic_request_view':
  assumes "generic_request c net m u b f w = (r, f1, w1)"
  shows "session f1 = session (fst (ensure_session f w))"
    and "close_session f1 = close_session (fst (ensure_session f w))"
    and "sessions w1 = sessions (snd (ensure_session f w))"
    and "next_session w1 = next_session (snd (ensure_session f w))"
  using generic_request_view [of c net m u b f w] assms
  by (simp_all add: session_view_def)

lemma set_token_view:
  "session_kept_or_created f w (set_token c today today' net f w)"
proof (cases "token_refreshdate f = today")
  case True
  obtain r f1 w1 where g: "generic_request c net ''POST'' (TOKEN_PATH c)
      (Some (get_token_body f)) f w = (r, f1, w1)"
    using prod_cases3 by blast
  show ?thesis
    using True generic_request_view' [OF g]
    by (simp add: set_token_def token_request_def g session_kept_or_created_def session_view_def
        split: sum.splits)
next
  case False
  then show ?thesis
    by (simp add: set_token_def session_kept_or_created_def)
qed

lemma update_data_view:
  "session_kept_or_created f w (update_data c format_dict net f w)"
proof -
  obtain u where s: "update_data c format_dict net f w =
     (case generic_request c net ''GET'' u None f w of
        (Inl e, f1, w1) \<Rightarrow> (Inl e, f1, w1)
      | (Inr response, f1, w1) \<Rightarrow>
          (case format_dict response of
             Inl e \<Rightarrow> (Inl e, f1, w1)
           | Inr d \<Rightarrow> (Inr (), f1\<lparr>data := d\<rparr>, w1)))"
    using update_data_shape by blast
  obtain r f1 w1 where g: "generic_request c net ''GET'' u None f w = (r, f1, w1)"
    using prod_cases3 by blast
  show ?thesis
    unfolding s g using generic_request_view' [OF g]
    by (simp add: session_kept_or_created_def session_view_def split: sum.splits)
qed

lemma update_device_info_view:
  "session_kept_or_created f w (update_device_info c format_dict net f w)"
proof -
  obtain u where s: "update_device_info c format_dict net f w =
     (case generic_request c net ''GET'' u None f w of
        (Inl e, f1, w1) \<Rightarrow> (Inl e, f1, w1)
      | (Inr response, f1, w1) \<Rightarrow>
          (case format_dict response of
             Inl e \<Rightarrow> (Inl e, f1, w1)
           | Inr d \<Rightarrow> (Inr (), f1\<lparr>device_info := d\<rparr>, w1)))"
    using update_device_info_shape by blast
  obtain r f1 w1 where g: "generic_request c net ''GET'' u None f w = (r, f1, w1)"
    using prod_cases3 by blast
  show ?thesis
    unfolding s g using generic_request_view' [OF g]
    by (simp add: session_kept_or_created_def session_view_def split: sum.splits)
qed

lemma set_home_temp_view:
  "session_kept_or_created f w (set_home_temp c float net temp f w)"
proof -
  obtain r f1 w1 where g: "generic_request c net ''PUT''
      (get_escaped_datapoints_url c (HOME_AIR_TEMPERATURE_PATH c)) (Some (put_body temp)) f w
      = (r, f1, w1)"
    using prod_cases3 by blast
  show ?thesis
    unfolding set_home_temp_def g using generic_request_view' [OF g]
    by (simp add: session_kept_or_created_def session_view_def split: sum.splits)
qed

lemma set_away_temp_view:
  "session_kept_or_created f w (set_away_temp c float net temp f w)"
proof -
  obtain r f1 w1 where g: "generic_request c net ''PUT''
      (get_escaped_datapoints_url c (AWAY_AIR_TEMPERATURE_PATH c)) (Some (put_body temp)) f w
      = (r, f1, w1)"
    using prod_cases3 by blast
  show ?thesis
    unfolding set_away_temp_def g using generic_request_view' [OF g]
    by (simp add: session_kept_or_created_def session_view_def split: sum.splits)
qed

lemma set_mode_view:
  "session_kept_or_created f w (set_mode c net mode f w)"
proof (cases "switcher_get [(''Home'', 0), (''Away'', 2), (''High'', 4)] mode = - 1")
  case True
  then show ?thesis
    by (simp add: set_mode_def session_kept_or_created_def)
next
  case False
  obtain r f1 w1 where g: "generic_request c net ''PUT''
      (get_escaped_datapoints_url c (VENTILATION_MODE_PUT_PATH c))
      (Some (put_body (str (switcher_get [(''Home'', 0), (''Away'', 2), (''High'', 4)] mode))))
      f w = (r, f1, w1)"
    using prod_cases3 by blast
  show ?thesis
    unfolding set_mode_def Let_def using False generic_request_view' [OF g]
    by (simp add: g session_kept_or_created_def session_view_def split: sum.splits)
qed

lemma set_heater_state_view:
  "session_kept_or_created f w (set_heater_state c net state f w)"
proof (cases "switcher_get [(''on'', 1), (''off'', 0)] state = - 1")
  case True
  then show ?thesis
    by (simp add: set_heater_state_def session_kept_or_created_def)
next
  case False
  obtain r f1 w1 where g: "generic_request c net ''PUT''
      (get_escaped_datapoints_url c (ELECTRIC_HEATER_PATH c))
      (Some (put_body (str (switcher_get [(''on'', 1), (''off'', 0)] state))))
      f w = (r, f1, w1)"
    using prod_cases3 by blast
  show ?thesis
    unfolding set_heater_state_def Let_def using False generic_request_view' [OF g]
    by (simp add: g session_kept_or_created_def session_view_def split: sum.splits)
qed

lemma invoke_view:
  "x \<noteq> Close \<Longrightarrow> session_kept_or_created f w (invoke c fi di fl x f w)"
  by (cases x)
     (simp_all add: set_token_view update_data_view update_device_info_view set_home_temp_view
        set_away_temp_view set_mode_view set_heater_state_view)

lemma update_data_view_eq:
  "session_view (snd (update_data c format_dict net f w)) = session_view (ensure_session f w)"
proof -
  obtain u where s: "update_data c format_dict net f w =
     (case generic_request c net ''GET'' u None f w of
        (Inl e, f1, w1) \<Rightarrow> (Inl e, f1, w1)
      | (Inr response, f1, w1) \<Rightarrow>
          (case format_dict response of
             Inl e \<Rightarrow> (Inl e, f1, w1)
           | Inr d \<Rightarrow> (Inr (), f1\<lparr>data := d\<rparr>, w1)))"
    using update_data_shape by blast
  obtain r f1 w1 where g: "generic_request c net ''GET'' u None f w = (r, f1, w1)"
    using prod_cases3 by blast
  show ?thesis
    unfolding s g using generic_request_view' [OF g]
    by (simp add: session_view_def split: sum.splits)
qed

text \<open>A client with a session of its caller never creates or closes a session.\<close>

lemma supplied_step:
  assumes "session f = Some a" and "\<not> close_session f"
    and "invoke c fi di fl x f w = (r, f', w')"
  shows "session f' = Some a \<and> \<not> close_session f' \<and> sessions w' = sessions w"
proof (cases "x = Close")
  case True
  then show ?thesis
    using assms by (auto simp: close_def)
next
  case False
  have "ensure_session f w = (f, w)"
    using assms(1) by (simp add: ensure_session_def)
  then show ?thesis
    using invoke_view [OF False, of f w c fi di fl] assms
    by (simp add: session_kept_or_created_def session_view_def)
qed

lemma supplied_all:
  assumes "session f = Some a" and "\<not> close_session f"
    and "invoke_all c fi di fl xs f w = (f', w')"
  shows "session f' = Some a \<and> \<not> close_session f' \<and> sessions w' = sessions w"
  using assms
proof (induction xs arbitrary: f w)
  case Nil
  then show ?case by simp
next
  case (Cons x xs)
  obtain r f1 w1 where i: "invoke c fi di fl x f w = (r, f1, w1)"
    using prod_cases3 by blast
  have s: "session f1 = Some a \<and> \<not> close_session f1 \<and> sessions w1 = sessions w"
    by (rule supplied_step [OF Cons.prems(1,2) i])
  have "invoke_all c fi di fl xs f1 w1 = (f', w')"
    using Cons.prems(3) i by simp
  then show ?case
    using Cons.IH [of f1 w1] s by simp
qed

lemma own_step:
  assumes "own_session n0 f w" and "invoke c fi di fl x f w = (r, f', w')"
  shows "own_session n0 f' w'"
proof (cases "x = Close")
  case True
  then show ?thesis
    using assms
    by (auto simp: close_def own_session_def session_close_def split: option.splits if_splits)
next
  case False
  have "own_session n0 (fst (ensure_session f w)) (snd (ensure_session f w))"
    using assms(1)
    by (auto simp: own_session_def ensure_session_def ClientSession_def split: option.splits)
  then show ?thesis
    using invoke_view [OF False, of f w c fi di fl] assms
    by (auto simp: session_kept_or_created_def session_view_def own_session_def
        split: option.splits)
qed

lemma own_all:
  assumes "own_session n0 f w" and "invoke_all c fi di fl xs f w = (f', w')"
  shows "own_session n0 f' w'"
  using assms
proof (induction xs arbitrary: f w)
  case Nil
  then show ?case by simp
next
  case (Cons x xs)
  obtain r f1 w1 where i: "invoke c fi di fl x f w = (r, f1, w1)"
    using prod_cases3 by blast
  have s: "own_session n0 f1 w1"
    by (rule own_step [OF Cons.prems(1) i])
  have "invoke_all c fi di fl xs f1 w1 = (f', w')"
    using Cons.prems(2) i by simp
  then show ?case
    using Cons.IH [of f1 w1] s by simp
qed

text \<open>
  C9. After any sequence of calls on a client constructed with a session of its caller,
  the store of sessions is as it was when the client was made, and \<open>close\<close> changes
  nothing: that session is not closed. After any sequence of calls on a client
  constructed without a session, either no session has been created and \<open>close\<close>
  changes nothing, or the client holds a session at an address that was free when it
  was made (it created the session, in \<open>_generic_request\<close>), and \<open>close\<close> closes that
  session.
\<close>

theorem close_releases_own_session_only:
  "(invoke_all c fi di fl xs (Flexit u p k (Some a) today) w = (f', w') \<longrightarrow>
      sessions w' = sessions w \<and> close f' w' = (Inr (), f', w'))
   \<and> (invoke_all c fi di fl xs (Flexit u p k None today) w = (f', w') \<longrightarrow>
      (case session f' of
         None \<Rightarrow> close f' w' = (Inr (), f', w')
       | Some n \<Rightarrow>
           next_session w \<le> n
           \<and> close f' w' = (Inr (), f', session_close n w')
           \<and> sessions (session_close n w') n = Some Closed))"
proof (intro conjI impI)
  assume i: "invoke_all c fi di fl xs (Flexit u p k (Some a) today) w = (f', w')"
  have "session f' = Some a \<and> \<not> close_session f' \<and> sessions w' = sessions w"
    by (rule supplied_all [OF _ _ i]) (simp_all add: Flexit_def)
  then show "sessions w' = sessions w" and "close f' w' = (Inr (), f', w')"
    by (simp_all add: close_def)
next
  assume i: "invoke_all c fi di fl xs (Flexit u p k None today) w = (f', w')"
  have "own_session (next_session w) (Flexit u p k None today) w"
    by (simp add: own_session_def Flexit_def)
  then have "own_session (next_session w) f' w'"
    using i by (rule own_all)
  then show "case session f' of
         None \<Rightarrow> close f' w' = (Inr (), f', w')
       | Some n \<Rightarrow>
           next_session w \<le> n
           \<and> close f' w' = (Inr (), f', session_close n w')
           \<and> sessions (session_close n w') n = Some Closed"
    by (simp add: own_session_def close_def session_close_def split: option.splits)
qed

text \<open>
  C9, an instance: one read that fails, then \<open>close\<close>, with the session 0 of the caller
  and without a session.
\<close>

theorem close_releases_own_session_only_witness:
  "invoke_all example_const example_format example_format example_float
     [Update_data (Inl gaierror)] example_client_with_session world_with_session
   = (fst (invoke_all example_const example_format example_format example_float
             [Update_data (Inl gaierror)] example_client_with_session world_with_session),
      snd (invoke_all example_const example_format example_format example_float
             [Update_data (Inl gaierror)] example_client_with_session world_with_session))
   \<and> sessions (snd (snd (close
        (fst (invoke_all example_const example_format example_format example_float
             [Update_data (Inl gaierror)] example_client_with_session world_with_session))
        (snd (invoke_all example_const example_format example_format example_float
             [Update_data (Inl gaierror)] example_client_with_session world_with_session)))))
       = [0 \<mapsto> Open]
   \<and> invoke_all example_const example_format example_format example_float
     [Update_data (Inl gaierror)] example_client empty_world
   = (fst (invoke_all example_const example_format example_format example_float
             [Update_data (Inl gaierror)] example_client empty_world),
      snd (invoke_all example_const example_format example_format example_float
             [Update_data (Inl gaierror)] example_client empty_world))
   \<and> session (fst (invoke_all example_const example_format example_format example_float
             [Update_data (Inl gaierror)] example_client empty_world)) = Some 0
   \<and> sessions (snd (snd (close
        (fst (invoke_all example_const example_format example_format example_float
             [Update_data (Inl gaierror)] example_client empty_world))
        (snd (invoke_all example_const example_format example_format example_float
             [Update_data (Inl gaierror)] example_client empty_world))))) 0
       = Some Closed"
proof -
  have e: "example_client_with_session = Flexit ''user'' ''secret'' ''key'' (Some 0) 100"
    "example_client = Flexit ''user'' ''secret'' ''key'' None 100"
    by (simp_all add: example_client_with_session_def example_client_def)
  have v: "session_view (snd (update_data example_const example_format (Inl gaierror)
             example_client empty_world)) = (Some 0, True, [0 \<mapsto> Open], 1)"
    unfolding update_data_view_eq
    by (simp add: session_view_def ensure_session_def ClientSession_def example_defs)
  have s: "session (fst (invoke_all example_const example_format example_format example_float
             [Update_data (Inl gaierror)] example_client empty_world)) = Some 0"
    using v by (auto simp: session_view_def split: prod.splits)
  have w: "sessions world_with_session = [0 \<mapsto> Open]" "next_session empty_world = 0"
    by (simp_all add: world_with_session_def empty_world_def)
  note t1 = close_releases_own_session_only [THEN conjunct1, rule_format,
      where xs = "[Update_data (Inl gaierror)]" and c = example_const and fi = example_format
      and di = example_format and fl = example_float and w = world_with_session
      and u = "''user''" and p = "''secret''" and k = "''key''" and a = 0 and today = 100,
      OF prod.collapse [symmetric]]
  note t2 = close_releases_own_session_only [THEN conjunct2, rule_format,
      where xs = "[Update_data (Inl gaierror)]" and c = example_const and fi = example_format
      and di = example_format and fl = example_float and w = empty_world
      and u = "''user''" and p = "''secret''" and k = "''key''" and today = 100,
      OF prod.collapse [symmetric]]
  show ?thesis
    using t1 t2 s w unfolding e [symmetric]
    by simp
qed

end
